theory Spec2Isabelle
  imports Main "HOL-Library.Word"
begin

unbundle bit_operations_syntax

section \<open>JavaScript strings\<close>

text \<open>
  A JavaScript string is a sequence of UTF-16 code units; \<open>length\<close>, \<open>slice\<close>,
  \<open>trim\<close> and the regular expression class \<open>\s\<close> all work on code units.
  The literals of the source are ASCII (one code unit per character), with the one
  exception of the marker appended by \<open>truncate\<close>.
\<close>

type_synonym code_unit = "16 word"
type_synonym jsstring = "code_unit list"

definition utf16 :: "string \<Rightarrow> jsstring" where
  "utf16 s = map of_char s"

text \<open>
  The code units matched by \<open>\s\<close> and stripped by \<open>String.prototype.trim\<close>:
  ECMAScript's WhiteSpace and LineTerminator productions.
\<close>

definition isWhiteSpace :: "code_unit \<Rightarrow> bool" where
  "isWhiteSpace c \<longleftrightarrow>
     c = 0x09 \<or> c = 0x0A \<or> c = 0x0B \<or> c = 0x0C \<or> c = 0x0D \<or> c = 0x20 \<or>
     c = 0xA0 \<or> c = 0x1680 \<or> (0x2000 \<le> c \<and> c \<le> 0x200A) \<or>
     c = 0x2028 \<or> c = 0x2029 \<or> c = 0x202F \<or> c = 0x205F \<or> c = 0x3000 \<or> c = 0xFEFF"

text \<open>The space, the double quote, the single quote and the backslash.\<close>

definition SP :: code_unit where
  "SP = 0x20"

definition DQ :: code_unit where
  "DQ = 0x22"

definition SQ :: code_unit where
  "SQ = 0x27"

definition BS :: code_unit where
  "BS = 0x5C"

text \<open>Truthiness of an optional string: \<open>undefined\<close>, \<open>null\<close> and \<open>""\<close> are falsy.\<close>

definition truthy_str :: "jsstring option \<Rightarrow> bool" where
  "truthy_str v = (case v of None \<Rightarrow> False | Some s \<Rightarrow> s \<noteq> [])"

text \<open>\<open>s.trim()\<close>: strip leading and trailing white space.\<close>

definition js_trimStart :: "jsstring \<Rightarrow> jsstring" where
  "js_trimStart s = dropWhile isWhiteSpace s"

definition js_trimEnd :: "jsstring \<Rightarrow> jsstring" where
  "js_trimEnd s = rev (dropWhile isWhiteSpace (rev s))"

definition js_trim :: "jsstring \<Rightarrow> jsstring" where
  "js_trim s = js_trimEnd (js_trimStart s)"

text \<open>
  \<open>s.replace(/\s+/g, " ")\<close>: every maximal run of white space (the \<open>+\<close> is greedy)
  is replaced by one space, scanning from the left.
\<close>

function replace_ws_runs :: "jsstring \<Rightarrow> jsstring" where
  "replace_ws_runs [] = []"
| "replace_ws_runs (c # cs) =
     (if isWhiteSpace c then SP # replace_ws_runs (dropWhile isWhiteSpace cs)
      else c # replace_ws_runs cs)"
  by pat_completeness auto
termination
  by (relation "measure length") (auto simp: le_imp_less_Suc length_dropWhile_le)

text \<open>
  \<open>s.slice(start, end)\<close> with integer arguments: a negative index counts from the
  end, both indices are clamped to the string, and an empty string results when the
  end is not beyond the start.
\<close>

definition js_slice :: "jsstring \<Rightarrow> int \<Rightarrow> int \<Rightarrow> jsstring" where
  "js_slice s start end =
     (let len = int (length s);
          from = (if start < 0 then max (len + start) 0 else min start len);
          to = (if end < 0 then max (len + end) 0 else min end len);
          span = max (to - from) 0
      in take (nat span) (drop (nat from) s))"

section \<open>Child processes and the world\<close>

text \<open>
  \<open>execAsync(command, { timeout: 5000 })\<close> is \<open>child_process.exec\<close> promisified: the
  promise resolves with the captured output when the child exits with status 0, and
  rejects otherwise (non-zero exit, which is also what the shell reports for a missing
  binary; the child killed at the timeout; a failure to spawn).

  The operating system is an oracle that maps the commands executed so far and the
  command being executed to the outcome, so that two executions of one command may
  differ. The world records the commands executed and the calls made to the delivery
  function \<open>sendNotification\<close>. An \<open>async\<close> function is a function from the world to
  its result and the world after it.
\<close>

datatype exec_error = NonZeroExit int | TimedOut | SpawnFailed

record exec_output =
  stdout :: jsstring
  stderr :: jsstring

type_synonym exec_result = "exec_error + exec_output"

type_synonym os = "jsstring list \<Rightarrow> jsstring \<Rightarrow> exec_result"

section \<open>JSON values and the configuration (config.ts, types.ts)\<close>

text \<open>
  The value returned by \<open>JSON.parse\<close>. A number is an IEEE-754 binary64, kept as its
  bit pattern. An object is the list of its own properties.
\<close>

datatype json =
    JNull
  | JBool bool
  | JNumber "64 word"
  | JString jsstring
  | JArray "json list"
  | JObject "(jsstring \<times> json) list"

text \<open>
  JavaScript's \<open>ToBoolean\<close>, as applied by \<open>!\<close> and \<open>&&\<close>: \<open>null\<close>, \<open>false\<close>,
  \<open>+0\<close>, \<open>-0\<close>, \<open>NaN\<close> and \<open>""\<close> are falsy, every other value is truthy.
\<close>

definition number_truthy :: "64 word \<Rightarrow> bool" where
  "number_truthy d =
     (let magnitude = d AND 0x7FFFFFFFFFFFFFFF
      in magnitude \<noteq> 0 \<and> magnitude \<le> 0x7FF0000000000000)"

fun truthy :: "json \<Rightarrow> bool" where
  "truthy JNull = False"
| "truthy (JBool b) = b"
| "truthy (JNumber d) = number_truthy d"
| "truthy (JString s) = (s \<noteq> [])"
| "truthy (JArray _) = True"
| "truthy (JObject _) = True"

text \<open>
  Property access \<open>v.k\<close> on a value that is neither \<open>null\<close> nor \<open>undefined\<close>; \<open>None\<close>
  is \<open>undefined\<close>. Only the names \<open>events\<close>, \<open>sound\<close>, \<open>complete\<close>, \<open>error\<close>,
  \<open>permission\<close>, \<open>question\<close> and \<open>enabled\<close> are ever looked up, and none of them is a
  property of a string, number, boolean or array.
\<close>

fun get_member :: "json \<Rightarrow> jsstring \<Rightarrow> json option" where
  "get_member (JObject kvs) k = map_of kvs k"
| "get_member _ k = None"

text \<open>Optional chaining \<open>v?.k\<close> and nullish coalescing \<open>v ?? d\<close>.\<close>

definition opt_member :: "json option \<Rightarrow> jsstring \<Rightarrow> json option" where
  "opt_member v k =
     (case v of None \<Rightarrow> None | Some JNull \<Rightarrow> None | Some j \<Rightarrow> get_member j k)"

definition nullish :: "json option \<Rightarrow> json \<Rightarrow> json" where
  "nullish v d = (case v of None \<Rightarrow> d | Some JNull \<Rightarrow> d | Some j \<Rightarrow> j)"

text \<open>
  The configuration. TypeScript declares the fields \<open>boolean\<close>, but \<open>loadConfig\<close>
  stores whatever the file holds, so a field is a JSON value and its readers apply
  truthiness.
\<close>

record EventsConfig =
  complete :: json
  error :: json
  permission :: json
  question :: json

record SoundConfig =
  enabled :: json

record NotificationConfig =
  events :: EventsConfig
  sound :: SoundConfig

datatype EventType = Complete | Error | Permission | Question

definition DEFAULT_CONFIG :: NotificationConfig where
  "DEFAULT_CONFIG =
     \<lparr>events = \<lparr>complete = JBool True, error = JBool True,
                 permission = JBool True, question = JBool True\<rparr>,
      sound = \<lparr>enabled = JBool True\<rparr>\<rparr>"

text \<open>
  The configuration file as \<open>loadConfig\<close> finds it: \<open>existsSync\<close> is false
  (\<open>Missing\<close>), \<open>readFileSync\<close> throws (\<open>Unreadable\<close>), or it returns the content.
  \<open>JSON.parse\<close> is a parameter; \<open>None\<close> is its \<open>SyntaxError\<close>.
\<close>

datatype config_file = Missing | Unreadable | Content jsstring

definition loadConfig :: "(jsstring \<Rightarrow> json option) \<Rightarrow> config_file \<Rightarrow> NotificationConfig" where
  "loadConfig JSON_parse file =
     (case file of
        Missing \<Rightarrow> DEFAULT_CONFIG
      | Unreadable \<Rightarrow> DEFAULT_CONFIG
      | Content content \<Rightarrow>
          (case JSON_parse content of
             None \<Rightarrow> DEFAULT_CONFIG
           | Some parsed \<Rightarrow>
               \<lparr>events =
                  \<lparr>complete = nullish (opt_member (opt_member (Some parsed) (utf16 ''events''))
                                 (utf16 ''complete'')) (complete (events DEFAULT_CONFIG)),
                   error = nullish (opt_member (opt_member (Some parsed) (utf16 ''events''))
                                 (utf16 ''error'')) (error (events DEFAULT_CONFIG)),
                   permission = nullish (opt_member (opt_member (Some parsed) (utf16 ''events''))
                                 (utf16 ''permission'')) (permission (events DEFAULT_CONFIG)),
                   question = nullish (opt_member (opt_member (Some parsed) (utf16 ''events''))
                                 (utf16 ''question'')) (question (events DEFAULT_CONFIG))\<rparr>,
                sound =
                  \<lparr>enabled = nullish (opt_member (opt_member (Some parsed) (utf16 ''sound''))
                                 (utf16 ''enabled'')) (enabled (sound DEFAULT_CONFIG))\<rparr>\<rparr>))"

fun isEventEnabled :: "NotificationConfig \<Rightarrow> EventType \<Rightarrow> json" where
  "isEventEnabled config Complete = complete (events config)"
| "isEventEnabled config Error = error (events config)"
| "isEventEnabled config Permission = permission (events config)"
| "isEventEnabled config Question = question (events config)"

section \<open>Notification content (notify.ts)\<close>

record NotificationContent =
  title :: jsstring
  body :: jsstring
  icon :: jsstring

fun NOTIFICATION_DEFAULTS :: "EventType \<Rightarrow> NotificationContent" where
  "NOTIFICATION_DEFAULTS Complete =
     \<lparr>title = utf16 ''OpenCode Ready'', body = utf16 ''Task completed'',
      icon = utf16 ''dialog-information''\<rparr>"
| "NOTIFICATION_DEFAULTS Error =
     \<lparr>title = utf16 ''OpenCode Error'', body = utf16 ''An error occurred'',
      icon = utf16 ''dialog-error''\<rparr>"
| "NOTIFICATION_DEFAULTS Permission =
     \<lparr>title = utf16 ''OpenCode Permission'', body = utf16 ''Action requires approval'',
      icon = utf16 ''dialog-password''\<rparr>"
| "NOTIFICATION_DEFAULTS Question =
     \<lparr>title = utf16 ''OpenCode Question'', body = utf16 ''Your input is needed'',
      icon = utf16 ''dialog-question''\<rparr>"

fun EVENT_SOUNDS :: "EventType \<Rightarrow> jsstring" where
  "EVENT_SOUNDS Complete = utf16 ''dialog-information''"
| "EVENT_SOUNDS Error = utf16 ''dialog-error''"
| "EVENT_SOUNDS Permission = utf16 ''dialog-warning''"
| "EVENT_SOUNDS Question = utf16 ''dialog-question''"

record EventContext =
  errorMessage :: "jsstring option"
  permissionName :: "jsstring option"
  permissionPatterns :: "jsstring list option"
  questionText :: "jsstring option"
  questionHeader :: "jsstring option"

text \<open>
  The marker appended by \<open>truncate\<close>, as the source file has it: the literal is
  the three characters U+00E2 U+20AC U+00A6 (bytes \<open>c3 a2 e2 82 ac c2 a6\<close>), which
  is what the UTF-8 bytes of the horizontal ellipsis U+2026 give when they are read as
  Windows-1252 and encoded again.
\<close>

definition ellipsis :: jsstring where
  "ellipsis = [0xE2, 0x20AC, 0xA6]"

text \<open>
  \<open>truncate(str, maxLength)\<close>, named \<open>truncate_str\<close> here since every record
  declares a \<open>truncate\<close> of its own. \<open>maxLength\<close> is a JavaScript number; the
  callers pass the integers 100 and 60, and the model takes any integer.
\<close>

definition truncate_str :: "jsstring \<Rightarrow> int \<Rightarrow> jsstring" where
  "truncate_str str maxLength =
     (let cleaned = js_trim (replace_ws_runs str)
      in if int (length cleaned) \<le> maxLength then cleaned
         else js_slice cleaned 0 (maxLength - 1) @ ellipsis)"

text \<open>\<open>context.permissionPatterns?.[0]\<close>: the first pattern, or \<open>undefined\<close>.\<close>

definition first_pattern :: "jsstring list option \<Rightarrow> jsstring option" where
  "first_pattern ps =
     (case ps of None \<Rightarrow> None | Some [] \<Rightarrow> None | Some (p # _) \<Rightarrow> Some p)"

text \<open>
  A string tested by \<open>if (s)\<close> or \<open>s ? ... : ...\<close>: the string when it is truthy,
  \<open>None\<close> when it is \<open>undefined\<close> or empty.
\<close>

definition if_truthy :: "jsstring option \<Rightarrow> jsstring option" where
  "if_truthy v = (case v of None \<Rightarrow> None | Some s \<Rightarrow> if s \<noteq> [] then Some s else None)"

fun dynamic_body :: "EventType \<Rightarrow> EventContext \<Rightarrow> jsstring \<Rightarrow> jsstring" where
  "dynamic_body Complete ctx dflt = dflt"
| "dynamic_body Error ctx dflt =
     (case if_truthy (errorMessage ctx) of
        Some message \<Rightarrow> truncate_str message 100
      | None \<Rightarrow> dflt)"
| "dynamic_body Permission ctx dflt =
     (case if_truthy (permissionName ctx) of
        Some permission_name \<Rightarrow>
          (case if_truthy (first_pattern (permissionPatterns ctx)) of
             Some pattern \<Rightarrow> permission_name @ utf16 '': '' @ truncate_str pattern 60
           | None \<Rightarrow> permission_name @ utf16 '' requested'')
      | None \<Rightarrow> dflt)"
| "dynamic_body Question ctx dflt =
     (case if_truthy (questionText ctx) of
        Some text \<Rightarrow> truncate_str text 100
      | None \<Rightarrow>
          (case if_truthy (questionHeader ctx) of
             Some header \<Rightarrow> truncate_str header 100
           | None \<Rightarrow> dflt))"

text \<open>
  \<open>getNotificationContent(eventType, context)\<close>; \<open>dynamic_body\<close> is its \<open>switch\<close>,
  started from \<open>defaults.body\<close>.
\<close>

definition getNotificationContent :: "EventType \<Rightarrow> EventContext option \<Rightarrow> NotificationContent" where
  "getNotificationContent eventType context =
     (let defaults = NOTIFICATION_DEFAULTS eventType
      in case context of
           None \<Rightarrow> defaults
         | Some ctx \<Rightarrow> defaults\<lparr>body := dynamic_body eventType ctx (body defaults)\<rparr>)"

definition getEventSound :: "EventType \<Rightarrow> jsstring" where
  "getEventSound eventType = EVENT_SOUNDS eventType"

section \<open>Delivery (notify.ts)\<close>

text \<open>The optional third argument of \<open>sendNotification\<close>.\<close>

record NotifyOptions =
  opt_icon :: "jsstring option"
  opt_playSound :: "json option"
  opt_soundId :: "jsstring option"

record delivery =
  d_title :: jsstring
  d_body :: jsstring
  d_options :: "NotifyOptions option"

record world =
  execs :: "jsstring list"
  deliveries :: "delivery list"

definition execAsync :: "os \<Rightarrow> jsstring \<Rightarrow> world \<Rightarrow> exec_result \<times> world" where
  "execAsync os command w = (os (execs w) command, w\<lparr>execs := execs w @ [command]\<rparr>)"

text \<open>
  \<open>arg.replace(/\\/g, "\\\\").replace(/"/g, '\\"')\<close>: every backslash is doubled,
  then every double quote gets a backslash in front.
\<close>

definition escapeShellArg :: "jsstring \<Rightarrow> jsstring" where
  "escapeShellArg arg =
     concat (map (\<lambda>c. if c = DQ then [BS, DQ] else [c])
       (concat (map (\<lambda>c. if c = BS then [BS, BS] else [c]) arg)))"

text \<open>\<open>playSound\<close>: the outcome of the player is discarded by the \<open>catch\<close>.\<close>

definition playSound :: "os \<Rightarrow> jsstring \<Rightarrow> world \<Rightarrow> world" where
  "playSound os soundId w =
     snd (execAsync os (utf16 ''canberra-gtk-play -i '' @ [DQ] @ soundId @ [DQ]) w)"

text \<open>
  \<open>sendNotification(title, body, options)\<close>. The call is recorded, \<open>notify-send\<close> is
  started, then the sound player if asked for; both outcomes are discarded and both
  children are awaited.
\<close>

definition sendNotification ::
  "os \<Rightarrow> jsstring \<Rightarrow> jsstring \<Rightarrow> NotifyOptions option \<Rightarrow> world \<Rightarrow> world" where
  "sendNotification os ttl bdy options w =
     (let w0 = w\<lparr>deliveries := deliveries w @ [\<lparr>d_title = ttl, d_body = bdy, d_options = options\<rparr>]\<rparr>;
          icn = (case options of None \<Rightarrow> None | Some opts \<Rightarrow> opt_icon opts);
          iconArg = (case icn of
                       None \<Rightarrow> []
                     | Some i \<Rightarrow> if i \<noteq> [] then utf16 ''-i '' @ [DQ] @ escapeShellArg i @ [DQ]
                                else []);
          cmd = utf16 ''notify-send -a '' @ [DQ] @ utf16 ''OpenCode'' @ [DQ] @ utf16 '' -u normal ''
                @ iconArg @ [SP, DQ] @ escapeShellArg ttl @ [DQ, SP, DQ] @ escapeShellArg bdy @ [DQ];
          w1 = snd (execAsync os cmd w0);
          snd_on = (case options of None \<Rightarrow> None | Some opts \<Rightarrow> opt_playSound opts);
          snd_id = (case options of None \<Rightarrow> None | Some opts \<Rightarrow> opt_soundId opts)
      in case snd_on of
           None \<Rightarrow> w1
         | Some p \<Rightarrow>
             if truthy p then
               (case snd_id of
                  None \<Rightarrow> w1
                | Some i \<Rightarrow> if i \<noteq> [] then playSound os i w1 else w1)
             else w1)"

section \<open>Command probe (focus.ts)\<close>

text \<open>\<open>runCommand\<close>: the \<open>catch\<close> turns every rejection into \<open>null\<close>.\<close>

definition runCommand :: "os \<Rightarrow> jsstring \<Rightarrow> world \<Rightarrow> jsstring option \<times> world" where
  "runCommand os command w =
     (case execAsync os command w of
        (Inr out, w') \<Rightarrow> (Some (js_trim (stdout out)), w')
      | (Inl err, w') \<Rightarrow> (None, w'))"

definition commandExists :: "os \<Rightarrow> jsstring \<Rightarrow> world \<Rightarrow> bool \<times> world" where
  "commandExists os cmd w =
     (case runCommand os (utf16 ''which '' @ cmd) w of
        (result, w') \<Rightarrow> ((case result of None \<Rightarrow> False | Some r \<Rightarrow> 0 < length r), w'))"

section \<open>Focus detectors (focus.ts)\<close>

subsection \<open>X11\<close>

definition X11_init :: "os \<Rightarrow> world \<Rightarrow> jsstring option \<times> world" where
  "X11_init os w =
     (case commandExists os (utf16 ''xdotool'') w of
        (exists, w') \<Rightarrow>
          if \<not> exists then (None, w')
          else runCommand os (utf16 ''xdotool getactivewindow'') w')"

definition X11_isTerminalFocused :: "os \<Rightarrow> jsstring \<Rightarrow> world \<Rightarrow> bool \<times> world" where
  "X11_isTerminalFocused os terminalId w =
     (case runCommand os (utf16 ''xdotool getactivewindow'') w of
        (currentWindow, w') \<Rightarrow> (currentWindow = Some terminalId, w'))"

subsection \<open>Tmux\<close>

text \<open>
  The tmux detector holds a pane identifier and any other detector; its methods take
  the inner detector's methods as arguments.
\<close>

definition tmux_query :: "jsstring \<Rightarrow> string \<Rightarrow> jsstring" where
  "tmux_query pane var =
     utf16 ''tmux display-message -t '' @ pane @ utf16 '' -p '' @ [SQ] @ utf16 ''#{''
       @ utf16 var @ utf16 ''}'' @ [SQ]"

definition Tmux_init ::
  "os \<Rightarrow> (world \<Rightarrow> jsstring option \<times> world) \<Rightarrow> world \<Rightarrow> jsstring option \<times> world" where
  "Tmux_init os inner_init w =
     (case commandExists os (utf16 ''tmux'') w of
        (exists, w') \<Rightarrow> if \<not> exists then inner_init w' else inner_init w')"

definition Tmux_isTerminalFocused ::
  "os \<Rightarrow> jsstring \<Rightarrow> (jsstring \<Rightarrow> world \<Rightarrow> bool \<times> world) \<Rightarrow> jsstring \<Rightarrow> world
     \<Rightarrow> bool \<times> world" where
  "Tmux_isTerminalFocused os pane inner_isTerminalFocused terminalId w =
     (case inner_isTerminalFocused terminalId w of
        (terminalFocused, w1) \<Rightarrow>
          if \<not> terminalFocused then (False, w1)
          else
            (case runCommand os (tmux_query pane ''session_attached'') w1 of
               (sessionAttached, w2) \<Rightarrow>
                 if sessionAttached \<noteq> Some (utf16 ''1'') then (False, w2)
                 else
                   (case runCommand os (tmux_query pane ''window_active'') w2 of
                      (windowActive, w3) \<Rightarrow> (windowActive = Some (utf16 ''1''), w3))))"

subsection \<open>Fallback\<close>

definition AlwaysNotify_init :: "world \<Rightarrow> jsstring option \<times> world" where
  "AlwaysNotify_init w = (Some (utf16 ''unsupported''), w)"

definition AlwaysNotify_isTerminalFocused :: "jsstring \<Rightarrow> world \<Rightarrow> bool \<times> world" where
  "AlwaysNotify_isTerminalFocused terminalId w = (False, w)"

subsection \<open>The detectors the factory builds\<close>

datatype FocusDetector =
    X11FocusDetector
  | TmuxFocusDetector (paneId: jsstring) (innerDetector: FocusDetector)
  | AlwaysNotifyDetector

primrec name :: "FocusDetector \<Rightarrow> jsstring" where
  "name X11FocusDetector = utf16 ''X11 (xdotool)''"
| "name (TmuxFocusDetector pane inner) = utf16 ''Tmux''"
| "name AlwaysNotifyDetector = utf16 ''Fallback (always notify)''"

primrec init :: "FocusDetector \<Rightarrow> os \<Rightarrow> world \<Rightarrow> jsstring option \<times> world" where
  "init X11FocusDetector os = X11_init os"
| "init (TmuxFocusDetector pane inner) os = Tmux_init os (init inner os)"
| "init AlwaysNotifyDetector os = AlwaysNotify_init"

primrec isTerminalFocused :: "FocusDetector \<Rightarrow> os \<Rightarrow> jsstring \<Rightarrow> world \<Rightarrow> bool \<times> world" where
  "isTerminalFocused X11FocusDetector os = X11_isTerminalFocused os"
| "isTerminalFocused (TmuxFocusDetector pane inner) os =
     Tmux_isTerminalFocused os pane (isTerminalFocused inner os)"
| "isTerminalFocused AlwaysNotifyDetector os = AlwaysNotify_isTerminalFocused"

subsection \<open>Factory\<close>

text \<open>
  The three variables \<open>createFocusDetector\<close> reads from \<open>process.env\<close>; \<open>None\<close> is
  an unset variable, and a variable may be set to the empty string.
\<close>

record environment =
  XDG_SESSION_TYPE :: "jsstring option"
  DISPLAY :: "jsstring option"
  TMUX_PANE :: "jsstring option"

definition createFocusDetector :: "environment \<Rightarrow> FocusDetector" where
  "createFocusDetector env =
     (let sessionType = XDG_SESSION_TYPE env;
          tmuxPane = TMUX_PANE env;
          baseDetector =
            (if sessionType = Some (utf16 ''x11'') \<or> truthy_str (DISPLAY env)
             then X11FocusDetector else AlwaysNotifyDetector)
      in case tmuxPane of
           None \<Rightarrow> baseDetector
         | Some pane \<Rightarrow>
             if pane \<noteq> [] then TmuxFocusDetector pane baseDetector else baseDetector)"

definition initFocusDetection ::
  "os \<Rightarrow> environment \<Rightarrow> world \<Rightarrow> (FocusDetector \<times> jsstring option) \<times> world" where
  "initFocusDetection os env w =
     (let detector = createFocusDetector env
      in case init detector os w of (terminalId, w') \<Rightarrow> ((detector, terminalId), w'))"

section \<open>Notification gate (index.ts)\<close>

text \<open>
  \<open>maybeNotify\<close> closes over the configuration, the detector and the identity captured
  at start-up; here they are arguments. \<open>terminalId && ...\<close> calls the detector only
  for an identity that is neither \<open>null\<close> nor empty.
\<close>

definition maybeNotify ::
  "os \<Rightarrow> NotificationConfig \<Rightarrow> FocusDetector \<Rightarrow> jsstring option \<Rightarrow> EventType
     \<Rightarrow> EventContext option \<Rightarrow> world \<Rightarrow> world" where
  "maybeNotify os config detector terminalId eventType context w =
     (if \<not> truthy (isEventEnabled config eventType) then w
      else
        (case (case terminalId of
                 None \<Rightarrow> (False, w)
               | Some tid \<Rightarrow>
                   if tid \<noteq> [] then isTerminalFocused detector os tid w else (False, w)) of
           (focused, w1) \<Rightarrow>
             if focused then w1
             else
               (let content = getNotificationContent eventType context
                in sendNotification os (title content) (body content)
                     (Some \<lparr>opt_icon = Some (icon content),
                            opt_playSound = Some (enabled (sound config)),
                            opt_soundId = Some (getEventSound eventType)\<rparr>) w1)))"

text \<open>The gate calls made for a sequence of events, one after the other.\<close>

fun maybeNotify_each ::
  "os \<Rightarrow> NotificationConfig \<Rightarrow> FocusDetector \<Rightarrow> jsstring option
     \<Rightarrow> (EventType \<times> EventContext option) list \<Rightarrow> world \<Rightarrow> world" where
  "maybeNotify_each os config detector terminalId [] w = w"
| "maybeNotify_each os config detector terminalId ((eventType, context) # calls) w =
     maybeNotify_each os config detector terminalId calls
       (maybeNotify os config detector terminalId eventType context w)"

section \<open>Reference definitions\<close>

text \<open>
  The cleaned string as the specification words it: the words of the input (its
  maximal runs of characters that are not white space), joined by single spaces.
\<close>

function ws_words :: "jsstring \<Rightarrow> jsstring list" where
  "ws_words s =
     (case dropWhile isWhiteSpace s of
        [] \<Rightarrow> []
      | c # cs \<Rightarrow> (c # takeWhile (\<lambda>x. \<not> isWhiteSpace x) cs)
                 # ws_words (dropWhile (\<lambda>x. \<not> isWhiteSpace x) cs))"
  by pat_completeness auto
termination
proof (relation "measure length", goal_cases)
  case 1
  show ?case by simp
next
  case (2 s c cs)
  have "length (dropWhile (\<lambda>x. \<not> isWhiteSpace x) cs) \<le> length cs"
    by (rule length_dropWhile_le)
  moreover have "length (c # cs) \<le> length s"
    using length_dropWhile_le [of isWhiteSpace s] 2 by simp
  ultimately show ?case by simp
qed

declare ws_words.simps [simp del]

fun join_sp :: "jsstring list \<Rightarrow> jsstring" where
  "join_sp [] = []"
| "join_sp [w] = w"
| "join_sp (w # v # ws) = w @ SP # join_sp (v # ws)"

definition collapsed_spec :: "jsstring \<Rightarrow> jsstring" where
  "collapsed_spec s = join_sp (ws_words s)"

text \<open>
  Truncation as the specification words it: beyond the cap, the first \<open>cap - 1\<close>
  characters of the cleaned string and a single ellipsis marker, the one character
  U+2026, so that the result has \<open>cap\<close> characters.
\<close>

definition HORIZONTAL_ELLIPSIS :: code_unit where
  "HORIZONTAL_ELLIPSIS = 0x2026"

definition truncate_spec :: "jsstring \<Rightarrow> int \<Rightarrow> jsstring" where
  "truncate_spec str cap =
     (let cleaned = collapsed_spec str
      in if cap < int (length cleaned) then take (nat (cap - 1)) cleaned @ [HORIZONTAL_ELLIPSIS]
         else cleaned)"

text \<open>An error message of 101 letters \<open>a\<close>, one more than the cap of the error path.\<close>

definition long_message :: jsstring where
  "long_message = replicate 101 0x61"

definition long_error :: EventContext where
  "long_error =
     \<lparr>errorMessage = Some long_message, permissionName = None, permissionPatterns = None,
      questionText = None, questionHeader = None\<rparr>"

text \<open>
  The factory as the specification words it: a marker counts as soon as the variable
  is set, whatever its value.
\<close>

definition present :: "jsstring option \<Rightarrow> bool" where
  "present v \<longleftrightarrow> v \<noteq> None"

definition createFocusDetector_spec :: "environment \<Rightarrow> FocusDetector" where
  "createFocusDetector_spec env =
     (let base = (if XDG_SESSION_TYPE env = Some (utf16 ''x11'') \<or> present (DISPLAY env)
                  then X11FocusDetector else AlwaysNotifyDetector)
      in case TMUX_PANE env of
           None \<Rightarrow> base
         | Some pane \<Rightarrow> TmuxFocusDetector pane base)"

text \<open>A marker that is set to a value other than the empty string.\<close>

definition nonempty :: "jsstring option \<Rightarrow> bool" where
  "nonempty v \<longleftrightarrow> (case v of None \<Rightarrow> False | Some s \<Rightarrow> s \<noteq> [])"

text \<open>
  That \<open>r\<close> is \<open>s\<close> with the surrounding white space removed: \<open>s\<close> is \<open>r\<close> between
  two runs of white space, and \<open>r\<close> neither starts nor ends with white space.
\<close>

definition trimmed_of :: "jsstring \<Rightarrow> jsstring \<Rightarrow> bool" where
  "trimmed_of s r \<longleftrightarrow>
     (\<exists>pre suf. s = pre @ r @ suf \<and> list_all isWhiteSpace pre \<and> list_all isWhiteSpace suf)
     \<and> (r = [] \<or> (\<not> isWhiteSpace (hd r) \<and> \<not> isWhiteSpace (last r)))"

text \<open>
  The value a parsed configuration holds for a field of a section (\<open>events\<close> or
  \<open>sound\<close>): \<open>parsed\<close> is an object with the section as own property, which is an
  object with the field as own property. \<open>None\<close>: the field is missing.
\<close>

definition field_of :: "json \<Rightarrow> jsstring \<Rightarrow> jsstring \<Rightarrow> json option" where
  "field_of parsed section_name field_name =
     (case parsed of
        JObject kvs \<Rightarrow>
          (case map_of kvs section_name of
             Some (JObject members) \<Rightarrow> map_of members field_name
           | _ \<Rightarrow> None)
      | _ \<Rightarrow> None)"

section \<open>Example inputs\<close>

text \<open>
  An operating system given by a table from commands to outcomes; a command that is
  not in the table ends with status 127, as the shell reports for a missing binary.
\<close>

definition table_os :: "(jsstring \<times> exec_result) list \<Rightarrow> os" where
  "table_os tbl history command =
     (case map_of tbl command of Some r \<Rightarrow> r | None \<Rightarrow> Inl (NonZeroExit 127))"

definition printed :: "string \<Rightarrow> exec_result" where
  "printed line = Inr \<lparr>stdout = utf16 line @ [0x0A], stderr = []\<rparr>"

text \<open>
  A desktop with \<open>xdotool\<close> and \<open>tmux\<close>: window 4194311 is active, the session of
  pane \<open>%1\<close> is attached and its window is not the active one.
\<close>

definition desktop_os :: os where
  "desktop_os =
     table_os
       [(utf16 ''which xdotool'', printed ''/usr/bin/xdotool''),
        (utf16 ''which tmux'', printed ''/usr/bin/tmux''),
        (utf16 ''xdotool getactivewindow'', printed ''4194311''),
        (tmux_query (utf16 ''%1'') ''session_attached'', printed ''1''),
        (tmux_query (utf16 ''%1'') ''window_active'', printed ''0'')]"

text \<open>The same desktop with the window of pane \<open>%1\<close> active.\<close>

definition desktop_active_os :: os where
  "desktop_active_os =
     table_os
       [(utf16 ''xdotool getactivewindow'', printed ''4194311''),
        (tmux_query (utf16 ''%1'') ''session_attached'', printed ''1''),
        (tmux_query (utf16 ''%1'') ''window_active'', printed ''1'')]"

text \<open>A machine on which no command succeeds.\<close>

definition bare_os :: os where
  "bare_os = table_os []"

definition fresh_world :: world where
  "fresh_world = \<lparr>execs = [], deliveries = []\<rparr>"

text \<open>
  A configuration file that turns the error notifications off and says nothing else,
  and a parser that knows this file only.
\<close>

definition errors_off_text :: jsstring where
  "errors_off_text =
     utf16 ''{'' @ [DQ] @ utf16 ''events'' @ [DQ] @ utf16 '':{'' @ [DQ] @ utf16 ''error'' @ [DQ]
       @ utf16 '':false}}''"

definition errors_off_json :: json where
  "errors_off_json = JObject [(utf16 ''events'', JObject [(utf16 ''error'', JBool False)])]"

definition errors_off_parse :: "jsstring \<Rightarrow> json option" where
  "errors_off_parse s = (if s = errors_off_text then Some errors_off_json else None)"

definition errors_off_config :: NotificationConfig where
  "errors_off_config = loadConfig errors_off_parse (Content errors_off_text)"

section \<open>White space: trimming and collapsing\<close>

lemma SP_isWhiteSpace: "isWhiteSpace SP"
  by (simp add: SP_def isWhiteSpace_def)

lemma takeWhile_ws_all: "list_all isWhiteSpace (takeWhile isWhiteSpace s)"
  by (induction s) auto

lemma dropWhile_ws_no_lead:
  "dropWhile isWhiteSpace s = [] \<or> \<not> isWhiteSpace (hd (dropWhile isWhiteSpace s))"
  using hd_dropWhile [of isWhiteSpace s] by blast

lemma trimEnd_keep:
  "\<exists>y\<in>set ys. \<not> isWhiteSpace y \<Longrightarrow> js_trimEnd (xs @ ys) = xs @ js_trimEnd ys"
  by (auto simp: js_trimEnd_def dropWhile_append)

lemma trimEnd_drop:
  "\<forall>y\<in>set ys. isWhiteSpace y \<Longrightarrow> js_trimEnd (xs @ ys) = js_trimEnd xs"
  by (simp add: js_trimEnd_def dropWhile_append)

lemma trimEnd_id:
  "xs = [] \<or> \<not> isWhiteSpace (last xs) \<Longrightarrow> js_trimEnd xs = xs"
  by (cases xs rule: rev_cases) (auto simp: js_trimEnd_def)

lemma trimEnd_split:
  "\<exists>suf. t = js_trimEnd t @ suf \<and> list_all isWhiteSpace suf"
proof -
  have "js_trimEnd t @ rev (takeWhile isWhiteSpace (rev t))
          = rev (takeWhile isWhiteSpace (rev t) @ dropWhile isWhiteSpace (rev t))"
    by (simp only: js_trimEnd_def rev_append)
  also have "\<dots> = t"
    by (simp only: takeWhile_dropWhile_id rev_rev_ident)
  finally have "t = js_trimEnd t @ rev (takeWhile isWhiteSpace (rev t))"
    by simp
  moreover have "list_all isWhiteSpace (rev (takeWhile isWhiteSpace (rev t)))"
    using takeWhile_ws_all [of "rev t"] by (simp add: list_all_iff)
  ultimately show ?thesis by blast
qed

lemma trimEnd_last:
  "js_trimEnd t \<noteq> [] \<Longrightarrow> \<not> isWhiteSpace (last (js_trimEnd t))"
  unfolding js_trimEnd_def
  using hd_dropWhile [of isWhiteSpace "rev t"] by (simp add: last_rev)

lemma trimEnd_hd:
  assumes "js_trimEnd t \<noteq> []" and "t = [] \<or> \<not> isWhiteSpace (hd t)"
  shows "\<not> isWhiteSpace (hd (js_trimEnd t))"
proof -
  obtain suf where "t = js_trimEnd t @ suf" using trimEnd_split by blast
  then have "hd t = hd (js_trimEnd t)" using assms(1) by (metis hd_append2)
  moreover have "t \<noteq> []" using assms(1) by (auto simp: js_trimEnd_def)
  ultimately show ?thesis using assms(2) by simp
qed

text \<open>\<open>trim\<close> removes the surrounding white space, and nothing else does.\<close>

lemma js_trim_trimmed_of: "trimmed_of s (js_trim s)"
proof -
  define t where "t = js_trimStart s"
  have s: "s = takeWhile isWhiteSpace s @ t"
    by (simp add: t_def js_trimStart_def)
  obtain suf where suf: "t = js_trimEnd t @ suf" "list_all isWhiteSpace suf"
    using trimEnd_split by blast
  have lead: "t = [] \<or> \<not> isWhiteSpace (hd t)"
    unfolding t_def js_trimStart_def using hd_dropWhile [of isWhiteSpace s] by blast
  have "s = takeWhile isWhiteSpace s @ js_trim s @ suf"
    using s suf(1) by (simp add: js_trim_def t_def)
  moreover have "js_trim s = []
      \<or> (\<not> isWhiteSpace (hd (js_trim s)) \<and> \<not> isWhiteSpace (last (js_trim s)))"
    using trimEnd_hd [OF _ lead] trimEnd_last [of t] by (auto simp: js_trim_def t_def)
  ultimately show ?thesis
    unfolding trimmed_of_def using takeWhile_ws_all suf(2) by blast
qed

lemma trimmed_of_unique:
  assumes "trimmed_of s r"
  shows "r = js_trim s"
proof -
  from assms obtain pre suf where s: "s = pre @ r @ suf"
    and pre: "\<forall>c\<in>set pre. isWhiteSpace c" and suf: "\<forall>c\<in>set suf. isWhiteSpace c"
    and r: "r = [] \<or> (\<not> isWhiteSpace (hd r) \<and> \<not> isWhiteSpace (last r))"
    by (auto simp: trimmed_of_def list_all_iff)
  show ?thesis
  proof (cases r)
    case Nil
    then have "js_trimStart s = []"
      using s pre suf by (simp add: js_trimStart_def)
    then show ?thesis by (simp add: Nil js_trim_def js_trimEnd_def)
  next
    case (Cons x xs)
    with r have x: "\<not> isWhiteSpace x" and l: "\<not> isWhiteSpace (last r)" by auto
    have "js_trimStart s = r @ suf"
      using pre x by (simp add: s js_trimStart_def dropWhile_append Cons)
    then have "js_trim s = js_trimEnd r"
      using trimEnd_drop [OF suf] by (simp add: js_trim_def)
    then show ?thesis using l by (simp add: trimEnd_id)
  qed
qed

text \<open>Unfolding the string primitives on a concrete string.\<close>

lemmas string_eval =
  utf16_def js_trim_def js_trimStart_def js_trimEnd_def isWhiteSpace_def SP_def DQ_def SQ_def BS_def

section \<open>Truncation\<close>

text \<open>
  Replacing the runs of white space and trimming gives the words of the input joined
  by single spaces.
\<close>

lemma replace_ws_runs_no_lead:
  "s = [] \<or> \<not> isWhiteSpace (hd s) \<Longrightarrow> js_trimStart (replace_ws_runs s) = replace_ws_runs s"
  by (cases s) (auto simp: js_trimStart_def)

lemma trimStart_replace_ws_runs:
  "js_trimStart (replace_ws_runs s) = replace_ws_runs (js_trimStart s)"
proof (cases s)
  case Nil
  then show ?thesis by (simp add: js_trimStart_def)
next
  case (Cons c cs)
  show ?thesis
  proof (cases "isWhiteSpace c")
    case True
    have "js_trimStart (replace_ws_runs (dropWhile isWhiteSpace cs))
            = replace_ws_runs (dropWhile isWhiteSpace cs)"
      by (rule replace_ws_runs_no_lead) (rule dropWhile_ws_no_lead)
    with True Cons show ?thesis by (simp add: js_trimStart_def SP_isWhiteSpace)
  next
    case False
    with Cons show ?thesis by (simp add: js_trimStart_def)
  qed
qed

lemma replace_ws_runs_word:
  "\<forall>x\<in>set w. \<not> isWhiteSpace x \<Longrightarrow> replace_ws_runs (w @ r) = w @ replace_ws_runs r"
  by (induction w) auto

lemma ws_words_trimStart: "ws_words (dropWhile isWhiteSpace s) = ws_words s"
  by (subst ws_words.simps, subst (2) ws_words.simps) simp

lemma ws_words_Nil: "dropWhile isWhiteSpace s = [] \<Longrightarrow> ws_words s = []"
  by (subst ws_words.simps) (simp del: dropWhile_eq_Nil_conv)

lemma ws_words_Cons:
  "\<not> isWhiteSpace c \<Longrightarrow>
   ws_words (c # cs) = (c # takeWhile (\<lambda>x. \<not> isWhiteSpace x) cs)
                        # ws_words (dropWhile (\<lambda>x. \<not> isWhiteSpace x) cs)"
  by (subst ws_words.simps) simp

lemma trimEnd_replace_ws_runs:
  "t = [] \<or> \<not> isWhiteSpace (hd t) \<Longrightarrow> js_trimEnd (replace_ws_runs t) = join_sp (ws_words t)"
proof (induction "length t" arbitrary: t rule: less_induct)
  case less
  show ?case
  proof (cases t)
    case Nil
    then show ?thesis by (simp add: js_trimEnd_def ws_words_Nil)
  next
    case (Cons x xs)
    with less.prems have x: "\<not> isWhiteSpace x" by simp
    define w where "w = x # takeWhile (\<lambda>x. \<not> isWhiteSpace x) xs"
    define r where "r = dropWhile (\<lambda>x. \<not> isWhiteSpace x) xs"
    have t: "t = w @ r" by (simp add: Cons w_def r_def)
    have w_nows: "\<forall>y\<in>set w. \<not> isWhiteSpace y"
      using x by (auto simp: w_def dest: set_takeWhileD)
    have w_ne: "w \<noteq> []" by (simp add: w_def)
    have w_last: "\<not> isWhiteSpace (last w)" using w_nows w_ne last_in_set by blast
    have rep: "replace_ws_runs t = w @ replace_ws_runs r"
      unfolding t by (rule replace_ws_runs_word [OF w_nows])
    have words: "ws_words t = w # ws_words r"
      unfolding Cons w_def r_def by (rule ws_words_Cons [OF x])
    show ?thesis
    proof (cases r)
      case Nil
      then show ?thesis using rep words w_last by (simp add: trimEnd_id ws_words_Nil)
    next
      case (Cons c cs)
      have "\<not> \<not> isWhiteSpace (hd r)"
        unfolding r_def by (rule hd_dropWhile) (use Cons r_def in simp)
      then have c: "isWhiteSpace c" by (simp add: Cons)
      define t' where "t' = dropWhile isWhiteSpace cs"
      have rep_r: "replace_ws_runs r = SP # replace_ws_runs t'"
        using c by (simp add: Cons t'_def)
      have words_r: "ws_words r = ws_words t'"
        using ws_words_trimStart [of r] c by (simp add: Cons t'_def)
      have "length t' \<le> length cs" unfolding t'_def by (rule length_dropWhile_le)
      then have len: "length t' < length t" by (simp add: t Cons)
      have lead: "t' = [] \<or> \<not> isWhiteSpace (hd t')"
        unfolding t'_def by (rule dropWhile_ws_no_lead)
      have IH: "js_trimEnd (replace_ws_runs t') = join_sp (ws_words t')"
        by (rule less.hyps [OF len lead])
      show ?thesis
      proof (cases t')
        case Nil
        have "js_trimEnd (w @ [SP]) = js_trimEnd w"
          by (rule trimEnd_drop) (simp add: SP_isWhiteSpace)
        then show ?thesis
          using rep rep_r words words_r w_last Nil by (simp add: trimEnd_id ws_words_Nil)
      next
        case (Cons y ys)
        with lead have y: "\<not> isWhiteSpace y" by simp
        then have "\<exists>z\<in>set (replace_ws_runs t'). \<not> isWhiteSpace z"
          by (simp add: Cons)
        then have "js_trimEnd ((w @ [SP]) @ replace_ws_runs t')
                     = (w @ [SP]) @ js_trimEnd (replace_ws_runs t')"
          by (rule trimEnd_keep)
        moreover obtain v vs where "ws_words t' = v # vs"
          using ws_words_Cons [OF y, of ys] Cons by simp
        ultimately show ?thesis
          using rep rep_r words words_r IH by simp
      qed
    qed
  qed
qed

lemma cleaned_is_collapsed:
  "js_trim (replace_ws_runs s) = collapsed_spec s"
proof -
  have "js_trim (replace_ws_runs s) = js_trimEnd (replace_ws_runs (dropWhile isWhiteSpace s))"
    using trimStart_replace_ws_runs [of s] by (simp add: js_trim_def js_trimStart_def)
  also have "\<dots> = join_sp (ws_words (dropWhile isWhiteSpace s))"
    by (rule trimEnd_replace_ws_runs) (rule dropWhile_ws_no_lead)
  finally show ?thesis by (simp add: collapsed_spec_def ws_words_trimStart)
qed

lemma js_slice_prefix:
  "0 \<le> n \<Longrightarrow> js_slice s 0 n = take (nat n) s"
  by (auto simp: js_slice_def Let_def min_def max_def)

text \<open>
  What the code computes for a cap of at least 1, as every caller passes: the words
  joined by single spaces, cut to \<open>maxLength - 1\<close> code units and followed by the
  marker of the source file when they are longer than the cap.
\<close>

lemma truncate_str_shape:
  "1 \<le> maxLength \<Longrightarrow>
   truncate_str str maxLength =
     (if maxLength < int (length (collapsed_spec str))
      then take (nat (maxLength - 1)) (collapsed_spec str) @ ellipsis
      else collapsed_spec str)"
  by (simp add: truncate_str_def cleaned_is_collapsed js_slice_prefix Let_def)

lemma truncate_str_length:
  assumes "1 \<le> maxLength" and "maxLength < int (length (collapsed_spec str))"
  shows "int (length (truncate_str str maxLength)) = maxLength + 2"
  using assms by (simp add: truncate_str_shape ellipsis_def min_def)

lemma collapsed_spec_no_ws:
  assumes "\<forall>c\<in>set s. \<not> isWhiteSpace c"
  shows "collapsed_spec s = s"
proof -
  have "replace_ws_runs (s @ []) = s @ replace_ws_runs []"
    using assms by (rule replace_ws_runs_word)
  then have rep: "replace_ws_runs s = s" by simp
  have start: "js_trimStart s = s"
    using assms by (cases s) (simp_all add: js_trimStart_def)
  have "s = [] \<or> \<not> isWhiteSpace (last s)"
    using assms last_in_set by blast
  then have "js_trimEnd s = s" by (rule trimEnd_id)
  with rep start have "js_trim (replace_ws_runs s) = s" by (simp add: js_trim_def)
  then show ?thesis by (simp add: cleaned_is_collapsed)
qed

lemma collapsed_long_message: "collapsed_spec long_message = long_message"
  by (rule collapsed_spec_no_ws) (simp add: long_message_def isWhiteSpace_def)

text \<open>
  Claim C8: beyond the cap, the result of truncation is the first \<open>cap - 1\<close>
  characters of the cleaned string followed by a single ellipsis marker. The code
  cleans the string and cuts it as the claim says, and then appends the three code
  units of the source file's literal in place of the ellipsis. On an error message of
  101 letters, at the cap 100 of the error path, \<open>truncate\<close> returns 99 letters and
  the code units U+00E2 U+20AC U+00A6, 102 code units in all and more than the
  maximum length; the claim gives 99 letters and U+2026, 100 code units. The body of
  the error notification is that result.
\<close>

theorem truncate_marker_divergence:
  "truncate_str long_message 100 = replicate 99 0x61 @ [0xE2, 0x20AC, 0xA6]
   \<and> length (truncate_str long_message 100) = 102
   \<and> truncate_spec long_message 100 = replicate 99 0x61 @ [0x2026]
   \<and> length (truncate_spec long_message 100) = 100
   \<and> truncate_str long_message 100 \<noteq> truncate_spec long_message 100
   \<and> body (getNotificationContent Error (Some long_error))
       = replicate 99 0x61 @ [0xE2, 0x20AC, 0xA6]"
proof -
  have code: "truncate_str long_message 100 = replicate 99 0x61 @ [0xE2, 0x20AC, 0xA6]"
    by (simp add: truncate_str_shape collapsed_long_message)
       (simp add: long_message_def ellipsis_def)
  have spec: "truncate_spec long_message 100 = replicate 99 0x61 @ [0x2026]"
    by (simp add: truncate_spec_def collapsed_long_message)
       (simp add: long_message_def HORIZONTAL_ELLIPSIS_def)
  have "long_message \<noteq> []" by (simp add: long_message_def)
  then have "body (getNotificationContent Error (Some long_error)) = truncate_str long_message 100"
    by (simp add: getNotificationContent_def long_error_def if_truthy_def)
  then show ?thesis by (simp add: code spec)
qed

section \<open>Command probe\<close>

lemma runCommand_fst:
  "fst (runCommand os command w) =
     (case os (execs w) command of Inr out \<Rightarrow> Some (js_trim (stdout out)) | Inl err \<Rightarrow> None)"
  by (simp add: runCommand_def execAsync_def split: sum.splits)

lemma runCommand_snd:
  "snd (runCommand os command w) = w\<lparr>execs := execs w @ [command]\<rparr>"
  by (simp add: runCommand_def execAsync_def split: sum.splits)

lemma runCommand_pair:
  "runCommand os command w = (fst (runCommand os command w), w\<lparr>execs := execs w @ [command]\<rparr>)"
  using runCommand_snd [of os command w] by (simp add: prod_eq_iff)

lemmas example_eval = table_os_def printed_def desktop_os_def desktop_active_os_def bare_os_def
  fresh_world_def tmux_query_def

lemma desktop_xdotool:
  "desktop_os h (utf16 ''xdotool getactivewindow'')
     = Inr \<lparr>stdout = utf16 ''4194311'' @ [0x0A], stderr = []\<rparr>"
  by (simp add: example_eval string_eval)

lemma bare_fails: "bare_os h command = Inl (NonZeroExit 127)"
  by (simp add: example_eval)

lemma desktop_probe:
  "fst (runCommand desktop_os (utf16 ''xdotool getactivewindow'') w) = Some (utf16 ''4194311'')"
  by (simp add: runCommand_fst desktop_xdotool) (simp add: string_eval)

lemma bare_probe: "fst (runCommand bare_os command w) = None"
  by (simp add: runCommand_fst bare_fails)

lemma tmux_probe_active:
  "fst (runCommand desktop_active_os (tmux_query (utf16 ''%1'') ''session_attached'') w) = Some (utf16 ''1'')"
  "fst (runCommand desktop_active_os (tmux_query (utf16 ''%1'') ''window_active'') w) = Some (utf16 ''1'')"
  by (simp_all add: runCommand_fst example_eval string_eval)

lemma tmux_probe_inactive:
  "fst (runCommand desktop_os (tmux_query (utf16 ''%1'') ''session_attached'') w) = Some (utf16 ''1'')"
  "fst (runCommand desktop_os (tmux_query (utf16 ''%1'') ''window_active'') w) = Some (utf16 ''0'')"
  by (simp_all add: runCommand_fst example_eval string_eval)

text \<open>
  Claim C4. For every command line, \<open>runCommand\<close> returns the standard output of the
  child with the surrounding white space removed when the child succeeds, and the one
  value \<open>null\<close> (\<open>None\<close>) when it fails in any way: non-zero exit (which covers a
  missing binary), timeout, failure to spawn. It has no other outcome, so no failure
  reaches the caller; exactly one child is started.
\<close>

theorem runCommand_contract:
  "(\<forall>out. os (execs w) command = Inr out \<longrightarrow>
      (\<exists>r. fst (runCommand os command w) = Some r \<and> trimmed_of (stdout out) r))
   \<and> (\<forall>err. os (execs w) command = Inl err \<longrightarrow> fst (runCommand os command w) = None)
   \<and> snd (runCommand os command w) = w\<lparr>execs := execs w @ [command]\<rparr>"
  by (simp add: runCommand_fst runCommand_snd js_trim_trimmed_of)

theorem runCommand_contract_witness:
  "desktop_os (execs fresh_world) (utf16 ''xdotool getactivewindow'')
     = Inr \<lparr>stdout = utf16 ''4194311'' @ [0x0A], stderr = []\<rparr>
   \<and> fst (runCommand desktop_os (utf16 ''xdotool getactivewindow'') fresh_world)
       = Some (utf16 ''4194311'')
   \<and> trimmed_of (utf16 ''4194311'' @ [0x0A]) (utf16 ''4194311'')
   \<and> bare_os (execs fresh_world) (utf16 ''xdotool getactivewindow'') = Inl (NonZeroExit 127)
   \<and> fst (runCommand bare_os (utf16 ''xdotool getactivewindow'') fresh_world) = None"
proof -
  let ?cmd = "utf16 ''xdotool getactivewindow''"
  have ok: "desktop_os (execs fresh_world) ?cmd
              = Inr \<lparr>stdout = utf16 ''4194311'' @ [0x0A], stderr = []\<rparr>"
    by (rule desktop_xdotool)
  have ko: "bare_os (execs fresh_world) ?cmd = Inl (NonZeroExit 127)"
    by (rule bare_fails)
  from runCommand_contract [of desktop_os fresh_world ?cmd] ok
  obtain r where r: "fst (runCommand desktop_os ?cmd fresh_world) = Some r"
      "trimmed_of (utf16 ''4194311'' @ [0x0A]) r"
    by auto
  have "js_trim (utf16 ''4194311'' @ [0x0A]) = utf16 ''4194311''"
    by (simp add: string_eval)
  with r(2) have "r = utf16 ''4194311''"
    using trimmed_of_unique by fastforce
  moreover from runCommand_contract [of bare_os fresh_world ?cmd] ko
  have "fst (runCommand bare_os ?cmd fresh_world) = None" by blast
  ultimately show ?thesis using ok ko r by simp
qed

section \<open>Focus detectors\<close>

text \<open>
  Claim C3. For the X11 detector and every captured identity, \<open>isTerminalFocused\<close>
  is true exactly when the probe of the active window succeeds with a value equal to
  the identity, compared as strings as they are; it is false for every other probe
  result, the failed probe included.
\<close>

theorem X11_isTerminalFocused_iff:
  "(fst (X11_isTerminalFocused os terminalId w) \<longleftrightarrow>
      fst (runCommand os (utf16 ''xdotool getactivewindow'') w) = Some terminalId)
   \<and> (fst (runCommand os (utf16 ''xdotool getactivewindow'') w) = None \<longrightarrow>
        \<not> fst (X11_isTerminalFocused os terminalId w))
   \<and> (fst (X11_isTerminalFocused os terminalId w) \<longleftrightarrow>
        (\<exists>out. os (execs w) (utf16 ''xdotool getactivewindow'') = Inr out
               \<and> js_trim (stdout out) = terminalId))"
proof -
  have "fst (X11_isTerminalFocused os terminalId w) \<longleftrightarrow>
          fst (runCommand os (utf16 ''xdotool getactivewindow'') w) = Some terminalId"
    by (simp add: X11_isTerminalFocused_def case_prod_beta)
  then show ?thesis
    by (auto simp: runCommand_fst split: sum.splits)
qed

theorem X11_isTerminalFocused_iff_witness:
  "fst (X11_isTerminalFocused desktop_os (utf16 ''4194311'') fresh_world)
   \<and> \<not> fst (X11_isTerminalFocused desktop_os (utf16 ''4194312'') fresh_world)
   \<and> fst (runCommand bare_os (utf16 ''xdotool getactivewindow'') fresh_world) = None
   \<and> \<not> fst (X11_isTerminalFocused bare_os (utf16 ''4194311'') fresh_world)"
proof -
  have "utf16 ''4194311'' \<noteq> utf16 ''4194312''" by (simp add: utf16_def)
  then show ?thesis
    using X11_isTerminalFocused_iff [of desktop_os "utf16 ''4194311''" fresh_world]
          X11_isTerminalFocused_iff [of desktop_os "utf16 ''4194312''" fresh_world]
          X11_isTerminalFocused_iff [of bare_os "utf16 ''4194311''" fresh_world]
          desktop_probe [of fresh_world] bare_probe [of "utf16 ''xdotool getactivewindow''" fresh_world]
    by simp
qed

text \<open>
  Claim C1. For the tmux detector, whatever the inner detector answers and whatever
  the two tmux probes return (failure included): the result is true exactly when the
  inner detector answers true, the \<open>session_attached\<close> probe returns \<open>"1"\<close> and the
  \<open>window_active\<close> probe returns \<open>"1"\<close>. When the inner detector answers false the
  result is false and the world is the one the inner detector left: no tmux probe was
  run.
\<close>

theorem Tmux_isTerminalFocused_table:
  "(case inner terminalId w of
      (terminalFocused, w1) \<Rightarrow>
        (case runCommand os (tmux_query pane ''session_attached'') w1 of
           (sessionAttached, w2) \<Rightarrow>
             (case runCommand os (tmux_query pane ''window_active'') w2 of
                (windowActive, w3) \<Rightarrow>
                  (fst (Tmux_isTerminalFocused os pane inner terminalId w) \<longleftrightarrow>
                     terminalFocused \<and> sessionAttached = Some (utf16 ''1'')
                     \<and> windowActive = Some (utf16 ''1''))
                  \<and> (\<not> terminalFocused \<longrightarrow>
                       Tmux_isTerminalFocused os pane inner terminalId w = (False, w1)))))"
  by (auto simp: Tmux_isTerminalFocused_def split: prod.splits)

theorem Tmux_isTerminalFocused_table_witness:
  "isTerminalFocused (TmuxFocusDetector (utf16 ''%1'') AlwaysNotifyDetector) bare_os
       (utf16 ''4194311'') fresh_world
     = (False, fresh_world)
   \<and> fst (Tmux_isTerminalFocused desktop_active_os (utf16 ''%1'') (\<lambda>tid w. (True, w))
            (utf16 ''4194311'') fresh_world)
   \<and> \<not> fst (Tmux_isTerminalFocused desktop_os (utf16 ''%1'') (\<lambda>tid w. (True, w))
            (utf16 ''4194311'') fresh_world)
   \<and> \<not> fst (Tmux_isTerminalFocused bare_os (utf16 ''%1'') (\<lambda>tid w. (True, w))
            (utf16 ''4194311'') fresh_world)"
proof -
  have neq: "utf16 ''0'' \<noteq> utf16 ''1''" by (simp add: utf16_def)
  have a: "isTerminalFocused (TmuxFocusDetector (utf16 ''%1'') AlwaysNotifyDetector) bare_os
             (utf16 ''4194311'') fresh_world = (False, fresh_world)"
    using Tmux_isTerminalFocused_table
            [where inner = AlwaysNotify_isTerminalFocused and terminalId = "utf16 ''4194311''"
               and w = fresh_world and os = bare_os and pane = "utf16 ''%1''"]
    by (simp add: AlwaysNotify_isTerminalFocused_def split: prod.splits)
  have b: "fst (Tmux_isTerminalFocused desktop_active_os (utf16 ''%1'') (\<lambda>tid w. (True, w))
            (utf16 ''4194311'') fresh_world)"
    using Tmux_isTerminalFocused_table
            [where inner = "\<lambda>tid w. (True, w)" and terminalId = "utf16 ''4194311''"
               and w = fresh_world and os = desktop_active_os and pane = "utf16 ''%1''"]
          tmux_probe_active
    by (subst (asm) (1 2) runCommand_pair) simp
  have c: "\<not> fst (Tmux_isTerminalFocused desktop_os (utf16 ''%1'') (\<lambda>tid w. (True, w))
            (utf16 ''4194311'') fresh_world)"
    using Tmux_isTerminalFocused_table
            [where inner = "\<lambda>tid w. (True, w)" and terminalId = "utf16 ''4194311''"
               and w = fresh_world and os = desktop_os and pane = "utf16 ''%1''"]
          tmux_probe_inactive neq
    by (subst (asm) (1 2) runCommand_pair) simp
  have d: "\<not> fst (Tmux_isTerminalFocused bare_os (utf16 ''%1'') (\<lambda>tid w. (True, w))
            (utf16 ''4194311'') fresh_world)"
    using Tmux_isTerminalFocused_table
            [where inner = "\<lambda>tid w. (True, w)" and terminalId = "utf16 ''4194311''"
               and w = fresh_world and os = bare_os and pane = "utf16 ''%1''"]
          bare_probe
    by (subst (asm) (1 2) runCommand_pair) simp
  show ?thesis using a b c d by simp
qed

text \<open>
  Claim C7. The fallback detector's \<open>init\<close> returns the same placeholder identity
  \<open>"unsupported"\<close>, which is not \<open>null\<close>, on every machine and in every world, and its
  \<open>isTerminalFocused\<close> is false for every identity, the placeholder included.
\<close>

theorem AlwaysNotify_never_focused:
  "init AlwaysNotifyDetector os w = (Some (utf16 ''unsupported''), w)
   \<and> isTerminalFocused AlwaysNotifyDetector os terminalId w' = (False, w')
   \<and> isTerminalFocused AlwaysNotifyDetector os (utf16 ''unsupported'') w' = (False, w')"
  by (simp add: AlwaysNotify_init_def AlwaysNotify_isTerminalFocused_def)

text \<open>
  Claim C2, as amended. For every environment the factory takes the X11 detector as
  base iff \<open>XDG_SESSION_TYPE\<close> is \<open>x11\<close> or \<open>DISPLAY\<close> is set to a non-empty value,
  and the fallback otherwise; it wraps the base in the tmux detector, the base inside,
  iff \<open>TMUX_PANE\<close> is set to a non-empty value, and returns the base otherwise.
\<close>

theorem createFocusDetector_selection:
  "createFocusDetector env =
     (let base = (if XDG_SESSION_TYPE env = Some (utf16 ''x11'') \<or> nonempty (DISPLAY env)
                  then X11FocusDetector else AlwaysNotifyDetector)
      in case TMUX_PANE env of
           None \<Rightarrow> base
         | Some pane \<Rightarrow> if nonempty (TMUX_PANE env) then TmuxFocusDetector pane base else base)"
  by (simp add: createFocusDetector_def nonempty_def truthy_str_def Let_def split: option.splits)

theorem createFocusDetector_selection_witness:
  "createFocusDetector \<lparr>XDG_SESSION_TYPE = Some (utf16 ''x11''), DISPLAY = None, TMUX_PANE = None\<rparr>
     = X11FocusDetector
   \<and> createFocusDetector \<lparr>XDG_SESSION_TYPE = None, DISPLAY = Some (utf16 '':0''), TMUX_PANE = None\<rparr>
     = X11FocusDetector
   \<and> createFocusDetector \<lparr>XDG_SESSION_TYPE = Some (utf16 ''wayland''), DISPLAY = None, TMUX_PANE = None\<rparr>
     = AlwaysNotifyDetector
   \<and> createFocusDetector \<lparr>XDG_SESSION_TYPE = Some (utf16 ''x11''), DISPLAY = None,
        TMUX_PANE = Some (utf16 ''%1'')\<rparr>
     = TmuxFocusDetector (utf16 ''%1'') X11FocusDetector
   \<and> createFocusDetector \<lparr>XDG_SESSION_TYPE = None, DISPLAY = None, TMUX_PANE = Some (utf16 ''%1'')\<rparr>
     = TmuxFocusDetector (utf16 ''%1'') AlwaysNotifyDetector"
  using createFocusDetector_selection
          [of "\<lparr>XDG_SESSION_TYPE = Some (utf16 ''x11''), DISPLAY = None, TMUX_PANE = None\<rparr>"]
        createFocusDetector_selection
          [of "\<lparr>XDG_SESSION_TYPE = None, DISPLAY = Some (utf16 '':0''), TMUX_PANE = None\<rparr>"]
        createFocusDetector_selection
          [of "\<lparr>XDG_SESSION_TYPE = Some (utf16 ''wayland''), DISPLAY = None, TMUX_PANE = None\<rparr>"]
        createFocusDetector_selection
          [of "\<lparr>XDG_SESSION_TYPE = Some (utf16 ''x11''), DISPLAY = None,
                TMUX_PANE = Some (utf16 ''%1'')\<rparr>"]
        createFocusDetector_selection
          [of "\<lparr>XDG_SESSION_TYPE = None, DISPLAY = None, TMUX_PANE = Some (utf16 ''%1'')\<rparr>"]
  by (simp add: nonempty_def utf16_def)

text \<open>
  Claim C2 as stated, with a marker that counts as soon as it is present, fails when
  \<open>DISPLAY\<close> and \<open>TMUX_PANE\<close> are set to the empty string: both variables are
  present, and the factory returns the fallback, unwrapped.
\<close>

theorem createFocusDetector_counterexample:
  "createFocusDetector \<lparr>XDG_SESSION_TYPE = None, DISPLAY = Some [], TMUX_PANE = Some []\<rparr>
     = AlwaysNotifyDetector
   \<and> createFocusDetector_spec \<lparr>XDG_SESSION_TYPE = None, DISPLAY = Some [], TMUX_PANE = Some []\<rparr>
     = TmuxFocusDetector [] X11FocusDetector"
  by (simp add: createFocusDetector_def createFocusDetector_spec_def present_def truthy_str_def)

section \<open>Notification content\<close>

text \<open>
  Claim C10. For every event type and every context, none included, the title and
  the icon of the content returned by \<open>getNotificationContent\<close> are those of the
  defaults of the event type; only the body can differ.
\<close>

theorem getNotificationContent_frame:
  "title (getNotificationContent eventType context) = title (NOTIFICATION_DEFAULTS eventType)
   \<and> icon (getNotificationContent eventType context) = icon (NOTIFICATION_DEFAULTS eventType)"
  by (simp add: getNotificationContent_def Let_def split: option.splits)

section \<open>Configuration\<close>

lemma missing_field_default:
  "field_of parsed s f = None \<Longrightarrow> nullish (opt_member (opt_member (Some parsed) s) f) d = d"
  by (auto simp: field_of_def opt_member_def nullish_def split: json.splits option.splits)

lemma loadConfig_Missing: "loadConfig JSON_parse Missing = DEFAULT_CONFIG"
  by (simp add: loadConfig_def)

lemma loadConfig_invalid:
  "JSON_parse content = None \<Longrightarrow> loadConfig JSON_parse (Content content) = DEFAULT_CONFIG"
  by (simp add: loadConfig_def)


lemma loadConfig_parsed:
  "JSON_parse content = Some parsed \<Longrightarrow>
   loadConfig JSON_parse (Content content) =
     \<lparr>events =
        \<lparr>complete = nullish (opt_member (opt_member (Some parsed) (utf16 ''events''))
                       (utf16 ''complete'')) (JBool True),
         error = nullish (opt_member (opt_member (Some parsed) (utf16 ''events''))
                       (utf16 ''error'')) (JBool True),
         permission = nullish (opt_member (opt_member (Some parsed) (utf16 ''events''))
                       (utf16 ''permission'')) (JBool True),
         question = nullish (opt_member (opt_member (Some parsed) (utf16 ''events''))
                       (utf16 ''question'')) (JBool True)\<rparr>,
      sound =
        \<lparr>enabled = nullish (opt_member (opt_member (Some parsed) (utf16 ''sound''))
                       (utf16 ''enabled'')) (JBool True)\<rparr>\<rparr>"
  unfolding loadConfig_def DEFAULT_CONFIG_def by simp

lemma DEFAULT_CONFIG_fields:
  "complete (events DEFAULT_CONFIG) = JBool True"
  "error (events DEFAULT_CONFIG) = JBool True"
  "permission (events DEFAULT_CONFIG) = JBool True"
  "question (events DEFAULT_CONFIG) = JBool True"
  "enabled (sound DEFAULT_CONFIG) = JBool True"
  by (simp_all add: DEFAULT_CONFIG_def)

lemma loadConfig_missing_fields:
  assumes "JSON_parse content = Some parsed"
  shows "field_of parsed (utf16 ''events'') (utf16 ''complete'') = None \<Longrightarrow>
           complete (events (loadConfig JSON_parse (Content content))) = JBool True"
    and "field_of parsed (utf16 ''events'') (utf16 ''error'') = None \<Longrightarrow>
           error (events (loadConfig JSON_parse (Content content))) = JBool True"
    and "field_of parsed (utf16 ''events'') (utf16 ''permission'') = None \<Longrightarrow>
           permission (events (loadConfig JSON_parse (Content content))) = JBool True"
    and "field_of parsed (utf16 ''events'') (utf16 ''question'') = None \<Longrightarrow>
           question (events (loadConfig JSON_parse (Content content))) = JBool True"
    and "field_of parsed (utf16 ''sound'') (utf16 ''enabled'') = None \<Longrightarrow>
           enabled (sound (loadConfig JSON_parse (Content content))) = JBool True"
  unfolding loadConfig_parsed [of JSON_parse content parsed, OF assms]
  by (simp_all add: missing_field_default)

lemma errors_off_parse_text: "errors_off_parse errors_off_text = Some errors_off_json"
  by (simp add: errors_off_parse_def)

lemma errors_off_parse_brace: "errors_off_parse (utf16 ''{'') = None"
  by (simp add: errors_off_parse_def errors_off_text_def utf16_def)

lemma errors_off_fields:
  "field_of errors_off_json (utf16 ''events'') (utf16 ''complete'') = None"
  "field_of errors_off_json (utf16 ''events'') (utf16 ''error'') = Some (JBool False)"
  "field_of errors_off_json (utf16 ''sound'') (utf16 ''enabled'') = None"
  by (simp_all add: field_of_def errors_off_json_def utf16_def)

text \<open>
  Claim C9. When the configuration file is absent or cannot be read, or its content
  is not valid JSON,
  \<open>loadConfig\<close> returns the default configuration, in which the four event
  categories and the sound are enabled; no parse error is raised. When the content
  parses, every field that is missing from the parsed value has its default.
\<close>

theorem loadConfig_fallback:
  "loadConfig JSON_parse Missing = DEFAULT_CONFIG
   \<and> loadConfig JSON_parse Unreadable = DEFAULT_CONFIG
   \<and> (JSON_parse content = None \<longrightarrow> loadConfig JSON_parse (Content content) = DEFAULT_CONFIG)
   \<and> DEFAULT_CONFIG = \<lparr>events = \<lparr>complete = JBool True, error = JBool True,
                                   permission = JBool True, question = JBool True\<rparr>,
                        sound = \<lparr>enabled = JBool True\<rparr>\<rparr>
   \<and> (JSON_parse content = Some parsed \<longrightarrow>
        (field_of parsed (utf16 ''events'') (utf16 ''complete'') = None \<longrightarrow>
           complete (events (loadConfig JSON_parse (Content content)))
             = complete (events DEFAULT_CONFIG))
        \<and> (field_of parsed (utf16 ''events'') (utf16 ''error'') = None \<longrightarrow>
           error (events (loadConfig JSON_parse (Content content)))
             = error (events DEFAULT_CONFIG))
        \<and> (field_of parsed (utf16 ''events'') (utf16 ''permission'') = None \<longrightarrow>
           permission (events (loadConfig JSON_parse (Content content)))
             = permission (events DEFAULT_CONFIG))
        \<and> (field_of parsed (utf16 ''events'') (utf16 ''question'') = None \<longrightarrow>
           question (events (loadConfig JSON_parse (Content content)))
             = question (events DEFAULT_CONFIG))
        \<and> (field_of parsed (utf16 ''sound'') (utf16 ''enabled'') = None \<longrightarrow>
           enabled (sound (loadConfig JSON_parse (Content content)))
             = enabled (sound DEFAULT_CONFIG)))"
proof (intro conjI impI)
  show "loadConfig JSON_parse Missing = DEFAULT_CONFIG"
    by (rule loadConfig_Missing)
  show "loadConfig JSON_parse Unreadable = DEFAULT_CONFIG"
    by (simp add: loadConfig_def)
  show "loadConfig JSON_parse (Content content) = DEFAULT_CONFIG" if "JSON_parse content = None"
    using that by (rule loadConfig_invalid)
  show "DEFAULT_CONFIG = \<lparr>events = \<lparr>complete = JBool True, error = JBool True,
                                   permission = JBool True, question = JBool True\<rparr>,
                        sound = \<lparr>enabled = JBool True\<rparr>\<rparr>"
    by (rule DEFAULT_CONFIG_def)
next
  assume p: "JSON_parse content = Some parsed"
  note fields = loadConfig_missing_fields [of JSON_parse content parsed, OF p]
  show "complete (events (loadConfig JSON_parse (Content content))) = complete (events DEFAULT_CONFIG)"
    if "field_of parsed (utf16 ''events'') (utf16 ''complete'') = None"
    using fields(1) [OF that] by (simp only: DEFAULT_CONFIG_fields)
  show "error (events (loadConfig JSON_parse (Content content))) = error (events DEFAULT_CONFIG)"
    if "field_of parsed (utf16 ''events'') (utf16 ''error'') = None"
    using fields(2) [OF that] by (simp only: DEFAULT_CONFIG_fields)
  show "permission (events (loadConfig JSON_parse (Content content))) = permission (events DEFAULT_CONFIG)"
    if "field_of parsed (utf16 ''events'') (utf16 ''permission'') = None"
    using fields(3) [OF that] by (simp only: DEFAULT_CONFIG_fields)
  show "question (events (loadConfig JSON_parse (Content content))) = question (events DEFAULT_CONFIG)"
    if "field_of parsed (utf16 ''events'') (utf16 ''question'') = None"
    using fields(4) [OF that] by (simp only: DEFAULT_CONFIG_fields)
  show "enabled (sound (loadConfig JSON_parse (Content content))) = enabled (sound DEFAULT_CONFIG)"
    if "field_of parsed (utf16 ''sound'') (utf16 ''enabled'') = None"
    using fields(5) [OF that] by (simp only: DEFAULT_CONFIG_fields)
qed

theorem loadConfig_fallback_witness:
  "errors_off_parse (utf16 ''{'') = None
   \<and> loadConfig errors_off_parse (Content (utf16 ''{'')) = DEFAULT_CONFIG
   \<and> errors_off_parse errors_off_text = Some errors_off_json
   \<and> field_of errors_off_json (utf16 ''events'') (utf16 ''complete'') = None
   \<and> complete (events (loadConfig errors_off_parse (Content errors_off_text))) = JBool True
   \<and> field_of errors_off_json (utf16 ''sound'') (utf16 ''enabled'') = None
   \<and> enabled (sound (loadConfig errors_off_parse (Content errors_off_text))) = JBool True"
proof -
  note bad = loadConfig_fallback [of errors_off_parse "utf16 ''{''" errors_off_json]
  note good = loadConfig_fallback [of errors_off_parse errors_off_text errors_off_json]
  have "loadConfig errors_off_parse (Content (utf16 ''{'')) = DEFAULT_CONFIG"
    using bad errors_off_parse_brace by blast
  moreover have "complete (events (loadConfig errors_off_parse (Content errors_off_text)))
                   = complete (events DEFAULT_CONFIG)"
    using good errors_off_parse_text errors_off_fields(1) by blast
  moreover have "enabled (sound (loadConfig errors_off_parse (Content errors_off_text)))
                   = enabled (sound DEFAULT_CONFIG)"
    using good errors_off_parse_text errors_off_fields(3) by blast
  ultimately show ?thesis
    using errors_off_parse_text errors_off_parse_brace errors_off_fields
    by (simp only: DEFAULT_CONFIG_fields simp_thms)
qed

section \<open>Notification gate\<close>

lemma deliveries_execAsync: "deliveries (snd (execAsync os command w)) = deliveries w"
  by (simp add: execAsync_def)

lemma deliveries_playSound: "deliveries (playSound os soundId w) = deliveries w"
  by (simp add: playSound_def deliveries_execAsync)

lemma deliveries_sendNotification:
  "deliveries (sendNotification os ttl bdy options w)
     = deliveries w @ [\<lparr>d_title = ttl, d_body = bdy, d_options = options\<rparr>]"
  by (simp add: sendNotification_def Let_def deliveries_execAsync deliveries_playSound
           split: option.splits)

lemma maybeNotify_disabled:
  "\<not> truthy (isEventEnabled config eventType) \<Longrightarrow>
   maybeNotify os config detector terminalId eventType context w = w"
  by (simp add: maybeNotify_def)

lemma maybeNotify_each_skip:
  "\<not> truthy (isEventEnabled config eventType) \<Longrightarrow>
   maybeNotify_each os config detector terminalId calls w
     = maybeNotify_each os config detector terminalId
         (filter (\<lambda>call. fst call \<noteq> eventType) calls) w"
proof (induction calls arbitrary: w)
  case Nil
  show ?case by simp
next
  case (Cons call calls)
  obtain e c where call: "call = (e, c)" by (cases call)
  show ?case
  proof (cases "e = eventType")
    case True
    with Cons call show ?thesis by (simp add: maybeNotify_disabled)
  next
    case False
    with Cons call show ?thesis by simp
  qed
qed

lemma runCommand_bare:
  "runCommand bare_os command w = (None, w\<lparr>execs := execs w @ [command]\<rparr>)"
  using runCommand_pair [of bare_os command w] by (simp add: bare_probe)

lemma X11_unfocused_bare:
  "X11_isTerminalFocused bare_os tid w
     = (False, w\<lparr>execs := execs w @ [utf16 ''xdotool getactivewindow'']\<rparr>)"
  by (simp add: X11_isTerminalFocused_def runCommand_bare)

lemma errors_off_config_events:
  "error (events errors_off_config) = JBool False"
  "complete (events errors_off_config) = JBool True"
  unfolding errors_off_config_def
    loadConfig_parsed [of errors_off_parse errors_off_text errors_off_json, OF errors_off_parse_text]
  by (simp_all add: opt_member_def nullish_def errors_off_json_def utf16_def)

lemma notified_complete_bare:
  "map d_title (deliveries (maybeNotify bare_os errors_off_config X11FocusDetector
      (Some (utf16 ''4194311'')) Complete None w))
     = map d_title (deliveries w) @ [utf16 ''OpenCode Ready'']"
proof -
  have "utf16 ''4194311'' \<noteq> []" by (simp add: utf16_def)
  then show ?thesis
    by (simp add: maybeNotify_def errors_off_config_events X11_unfocused_bare Let_def
          deliveries_sendNotification getNotificationContent_def)
qed

lemma init_bare_x11:
  "initFocusDetection bare_os
     \<lparr>XDG_SESSION_TYPE = Some (utf16 ''x11''), DISPLAY = None, TMUX_PANE = None\<rparr> fresh_world
   = ((X11FocusDetector, None), fresh_world\<lparr>execs := [utf16 ''which xdotool'']\<rparr>)"
  by (simp add: initFocusDetection_def createFocusDetector_def X11_init_def commandExists_def
        runCommand_bare Let_def)
     (simp add: fresh_world_def utf16_def)

text \<open>
  Claim C5. For every event category that is disabled in the configuration, the gate
  makes no call to the delivery function for that category, over any number of
  events and whatever the detector, the captured identity and the machine: one gate
  call for the category leaves the world as it was, a sequence of gate calls ends in
  the same world as the sequence without the calls of that category, and a sequence
  of calls of that category only leaves the list of deliveries as it was.
\<close>

theorem gate_disabled_category_silent:
  assumes "\<not> truthy (isEventEnabled config eventType)"
  shows "maybeNotify os config detector terminalId eventType context w = w
    \<and> maybeNotify_each os config detector terminalId calls w
        = maybeNotify_each os config detector terminalId
            (filter (\<lambda>call. fst call \<noteq> eventType) calls) w
    \<and> ((\<forall>call\<in>set calls. fst call = eventType) \<longrightarrow>
          deliveries (maybeNotify_each os config detector terminalId calls w) = deliveries w)"
proof (intro conjI impI)
  show "maybeNotify os config detector terminalId eventType context w = w"
    using assms by (rule maybeNotify_disabled)
  show skip: "maybeNotify_each os config detector terminalId calls w
        = maybeNotify_each os config detector terminalId
            (filter (\<lambda>call. fst call \<noteq> eventType) calls) w"
    using assms by (rule maybeNotify_each_skip)
  assume "\<forall>call\<in>set calls. fst call = eventType"
  then have "filter (\<lambda>call. fst call \<noteq> eventType) calls = []"
    by (simp add: filter_empty_conv)
  with skip show "deliveries (maybeNotify_each os config detector terminalId calls w) = deliveries w"
    by simp
qed

theorem gate_disabled_category_silent_witness:
  "\<not> truthy (isEventEnabled errors_off_config Error)
   \<and> maybeNotify bare_os errors_off_config X11FocusDetector (Some (utf16 ''4194311'')) Error None
        fresh_world = fresh_world
   \<and> map d_title (deliveries (maybeNotify_each bare_os errors_off_config X11FocusDetector
        (Some (utf16 ''4194311'')) [(Error, None), (Complete, None), (Error, None)] fresh_world))
       = [utf16 ''OpenCode Ready'']
   \<and> deliveries (maybeNotify_each bare_os errors_off_config X11FocusDetector
        (Some (utf16 ''4194311'')) [(Error, None), (Error, None)] fresh_world) = []"
proof -
  have off: "\<not> truthy (isEventEnabled errors_off_config Error)"
    by (simp add: errors_off_config_events)
  note silent = gate_disabled_category_silent
    [where os = bare_os and detector = X11FocusDetector
       and terminalId = "Some (utf16 ''4194311'')" and w = fresh_world, OF off]
  have one: "maybeNotify bare_os errors_off_config X11FocusDetector (Some (utf16 ''4194311''))
               Error None fresh_world = fresh_world"
    using silent [of None Nil] by blast
  have keep: "filter (\<lambda>call. fst call \<noteq> Error)
                [(Error, None), (Complete, None), (Error, None :: EventContext option)]
              = [(Complete, None)]"
    by simp
  have none_left: "filter (\<lambda>call. fst call \<noteq> Error) [(Error, None), (Error, None :: EventContext option)]
              = []"
    by simp
  have "maybeNotify_each bare_os errors_off_config X11FocusDetector (Some (utf16 ''4194311''))
          [(Error, None), (Complete, None), (Error, None)] fresh_world
        = maybeNotify_each bare_os errors_off_config X11FocusDetector (Some (utf16 ''4194311''))
            [(Complete, None)] fresh_world"
    using silent [of None "[(Error, None), (Complete, None), (Error, None)]"]
    unfolding keep by blast
  then have mixed: "map d_title (deliveries (maybeNotify_each bare_os errors_off_config
          X11FocusDetector (Some (utf16 ''4194311''))
          [(Error, None), (Complete, None), (Error, None)] fresh_world))
        = [utf16 ''OpenCode Ready'']"
    by (simp add: notified_complete_bare) (simp add: fresh_world_def)
  have only: "deliveries (maybeNotify_each bare_os errors_off_config X11FocusDetector
        (Some (utf16 ''4194311'')) [(Error, None), (Error, None)] fresh_world) = []"
    using silent [of None "[(Error, None), (Error, None)]"]
    unfolding none_left by (simp add: fresh_world_def)
  show ?thesis using off one mixed only by simp
qed

text \<open>
  Claim C6. When \<open>init\<close> returned no identity (\<open>null\<close>), then for every enabled
  event the gate takes the terminal as not focused and dispatches the notification:
  the gate call is the call of the delivery function on the content of the event, in
  the world the gate was called in, exactly one delivery is added, and the outcome is
  the same for every detector, so the detector is not consulted.
\<close>

theorem gate_no_identity_notifies:
  assumes "truthy (isEventEnabled config eventType)"
  shows "maybeNotify os config detector None eventType ctx w
           = sendNotification os
               (title (getNotificationContent eventType ctx))
               (body (getNotificationContent eventType ctx))
               (Some \<lparr>opt_icon = Some (icon (getNotificationContent eventType ctx)),
                      opt_playSound = Some (enabled (sound config)),
                      opt_soundId = Some (getEventSound eventType)\<rparr>) w
    \<and> deliveries (maybeNotify os config detector None eventType ctx w)
         = deliveries w @
             [\<lparr>d_title = title (getNotificationContent eventType ctx),
               d_body = body (getNotificationContent eventType ctx),
               d_options = Some \<lparr>opt_icon = Some (icon (getNotificationContent eventType ctx)),
                                 opt_playSound = Some (enabled (sound config)),
                                 opt_soundId = Some (getEventSound eventType)\<rparr>\<rparr>]
    \<and> maybeNotify os config detector' None eventType ctx w
         = maybeNotify os config detector None eventType ctx w"
  using assms by (simp add: maybeNotify_def Let_def deliveries_sendNotification)

theorem gate_no_identity_notifies_witness:
  "initFocusDetection bare_os
     \<lparr>XDG_SESSION_TYPE = Some (utf16 ''x11''), DISPLAY = None, TMUX_PANE = None\<rparr> fresh_world
     = ((X11FocusDetector, None), fresh_world\<lparr>execs := [utf16 ''which xdotool'']\<rparr>)
   \<and> truthy (isEventEnabled DEFAULT_CONFIG Complete)
   \<and> deliveries (maybeNotify bare_os DEFAULT_CONFIG X11FocusDetector None Complete None
        (fresh_world\<lparr>execs := [utf16 ''which xdotool'']\<rparr>))
       = [\<lparr>d_title = utf16 ''OpenCode Ready'', d_body = utf16 ''Task completed'',
           d_options = Some \<lparr>opt_icon = Some (utf16 ''dialog-information''),
                             opt_playSound = Some (JBool True),
                             opt_soundId = Some (utf16 ''dialog-information'')\<rparr>\<rparr>]"
proof -
  have on: "truthy (isEventEnabled DEFAULT_CONFIG Complete)"
    by (simp add: DEFAULT_CONFIG_def)
  note sent = gate_no_identity_notifies
    [where os = bare_os and detector = X11FocusDetector and ctx = None
       and w = "fresh_world\<lparr>execs := [utf16 ''which xdotool'']\<rparr>"
       and detector' = X11FocusDetector, OF on, THEN conjunct2, THEN conjunct1]
  have "deliveries (maybeNotify bare_os DEFAULT_CONFIG X11FocusDetector None Complete None
        (fresh_world\<lparr>execs := [utf16 ''which xdotool'']\<rparr>))
       = [\<lparr>d_title = utf16 ''OpenCode Ready'', d_body = utf16 ''Task completed'',
           d_options = Some \<lparr>opt_icon = Some (utf16 ''dialog-information''),
                             opt_playSound = Some (JBool True),
                             opt_soundId = Some (utf16 ''dialog-information'')\<rparr>\<rparr>]"
    using sent
    by (simp add: getNotificationContent_def getEventSound_def DEFAULT_CONFIG_fields fresh_world_def)
  then show ?thesis using on init_bare_x11 by simp
qed

end
